theory Spec2Isabelle
  imports Complex_Main "HOL-Library.Word" "HOL-Library.Sublist" "HOL-Library.AList"
    "HOL-Library.Multiset"
begin

section \<open>Eye colour analyser: colour conversion, matching, sampling, clustering, classification\<close>

text \<open>
  The development embeds the functions of the colour analyser (the file whose header reads
  "Eye color analyzer modeled after Unika's approach"). JavaScript numbers are idealised as
  the reals (\<open>Infinity\<close> is a value of its own where the code produces it), the pixel buffer
  is a list of bytes, objects are records, and \<open>null\<close> is \<open>None\<close>. The reference colour table
  \<open>pantoneData\<close> is loaded from a JSON file; it is a parameter of every function that reads it.
\<close>

subsection \<open>Data\<close>

record category =
  cat_name :: string
  cat_hex :: string

datatype category_key = blue | green | hazel | brown | gray | amber | violet

fun EYE_COLOR_CATEGORIES :: "category_key \<Rightarrow> category" where
  "EYE_COLOR_CATEGORIES blue = \<lparr>cat_name = ''Blue'', cat_hex = ''#4682B4''\<rparr>"
| "EYE_COLOR_CATEGORIES green = \<lparr>cat_name = ''Green'', cat_hex = ''#228B22''\<rparr>"
| "EYE_COLOR_CATEGORIES hazel = \<lparr>cat_name = ''Hazel'', cat_hex = ''#8E7618''\<rparr>"
| "EYE_COLOR_CATEGORIES brown = \<lparr>cat_name = ''Brown'', cat_hex = ''#634E34''\<rparr>"
| "EYE_COLOR_CATEGORIES gray = \<lparr>cat_name = ''Gray'', cat_hex = ''#708090''\<rparr>"
| "EYE_COLOR_CATEGORIES amber = \<lparr>cat_name = ''Amber'', cat_hex = ''#FFBF00''\<rparr>"
| "EYE_COLOR_CATEGORIES violet = \<lparr>cat_name = ''Violet'', cat_hex = ''#5A5C9E''\<rparr>"

record rgb =
  rgb_r :: real
  rgb_g :: real
  rgb_b :: real

record hsl =
  hsl_h :: real
  hsl_s :: real
  hsl_l :: real

record lab =
  lab_L :: real
  lab_a :: real
  lab_b :: real

text \<open>\<open>Math.round\<close>: the nearest integer, a tie going up.\<close>

definition Math_round :: "real \<Rightarrow> int" where
  "Math_round x = \<lfloor>x + 1 / 2\<rfloor>"

subsection \<open>\<open>rgbToHex\<close> and \<open>hexToRgb\<close>\<close>

definition hexDigit :: "nat \<Rightarrow> char" where
  "hexDigit n = ''0123456789abcdef'' ! n"

text \<open>\<open>Number.prototype.toString(16)\<close> on a non-negative integer.\<close>

fun toString16 :: "nat \<Rightarrow> string" where
  "toString16 n =
     (if n < 16 then [hexDigit n] else toString16 (n div 16) @ [hexDigit (n mod 16)])"

definition channelHex :: "real \<Rightarrow> string" where
  "channelHex x =
     (let hex = toString16 (nat (Math_round (max 0 (min 255 x))))
      in if length hex = 1 then CHR ''0'' # hex else hex)"

definition rgbToHex :: "real \<Rightarrow> real \<Rightarrow> real \<Rightarrow> string" where
  "rgbToHex r g b = CHR ''#'' # concat (map channelHex [r, g, b])"

text \<open>The character class \<open>[a-f\d]\<close> under the flag \<open>i\<close>.\<close>

definition isHexDigit :: "char \<Rightarrow> bool" where
  "isHexDigit c = (c \<in> set ''0123456789abcdefABCDEF'')"

definition hexValue :: "char \<Rightarrow> nat" where
  "hexValue c =
     (if c \<in> set ''0123456789'' then of_char c - 48
      else if c \<in> set ''abcdef'' then of_char c - 87
      else of_char c - 55)"

text \<open>\<open>parseInt(s, 16)\<close> on a string of hexadecimal digits.\<close>

definition parseInt16 :: "string \<Rightarrow> nat" where
  "parseInt16 s = foldl (\<lambda>acc c. 16 * acc + hexValue c) 0 s"

text \<open>
  The regular expression \<open>/^#?([a-f\d]{2})([a-f\d]{2})([a-f\d]{2})$/i\<close>: an optional
  leading \<open>#\<close>, then exactly six hexadecimal digits up to the end of the input.
\<close>

definition hexBody :: "string \<Rightarrow> string" where
  "hexBody s = (case s of [] \<Rightarrow> [] | c # cs \<Rightarrow> if c = CHR ''#'' then cs else s)"

definition hexToRgb :: "string \<Rightarrow> rgb option" where
  "hexToRgb s =
     (let body = hexBody s
      in if length body = 6 \<and> list_all isHexDigit body
         then Some \<lparr>rgb_r = real (parseInt16 (take 2 body)),
                    rgb_g = real (parseInt16 (take 2 (drop 2 body))),
                    rgb_b = real (parseInt16 (take 2 (drop 4 body)))\<rparr>
         else None)"

subsection \<open>\<open>rgbToLab\<close> and \<open>deltaE76\<close>\<close>

text \<open>
  \<open>Math.pow\<close> with the exponents \<open>2.4\<close> and \<open>1/3\<close> is only applied to positive bases
  (each call is guarded by a comparison with a positive threshold), where it is \<open>powr\<close>.
\<close>

definition gammaDecode :: "real \<Rightarrow> real" where
  "gammaDecode c = (if c > 0.04045 then ((c + 0.055) / 1.055) powr 2.4 else c / 12.92)"

definition labF :: "real \<Rightarrow> real" where
  "labF t = (if t > 0.008856 then t powr (1 / 3) else 7.787 * t + 16 / 116)"

definition rgbToLab :: "real \<Rightarrow> real \<Rightarrow> real \<Rightarrow> lab" where
  "rgbToLab r g b =
     (let rn = gammaDecode (r / 255); gn = gammaDecode (g / 255); bn = gammaDecode (b / 255);
          x = labF ((rn * 0.4124 + gn * 0.3576 + bn * 0.1805) / 0.95047);
          y = labF ((rn * 0.2126 + gn * 0.7152 + bn * 0.0722) / 1.0);
          z = labF ((rn * 0.0193 + gn * 0.1192 + bn * 0.9505) / 1.08883)
      in \<lparr>lab_L = 116 * y - 16, lab_a = 500 * (x - y), lab_b = 200 * (y - z)\<rparr>)"

text \<open>A distance is a real number or \<open>Infinity\<close>, which is above every real.\<close>

datatype distance = Finite real | Infinity

instantiation distance :: linorder
begin

fun less_eq_distance :: "distance \<Rightarrow> distance \<Rightarrow> bool" where
  "less_eq_distance (Finite x) (Finite y) = (x \<le> y)"
| "less_eq_distance (Finite x) Infinity = True"
| "less_eq_distance Infinity (Finite y) = False"
| "less_eq_distance Infinity Infinity = True"

fun less_distance :: "distance \<Rightarrow> distance \<Rightarrow> bool" where
  "less_distance (Finite x) (Finite y) = (x < y)"
| "less_distance (Finite x) Infinity = True"
| "less_distance Infinity (Finite y) = False"
| "less_distance Infinity Infinity = False"

instance
proof
  fix x y z :: distance
  show "(x < y) = (x \<le> y \<and> \<not> y \<le> x)"
    by (cases x; cases y) auto
  show "x \<le> x"
    by (cases x) auto
  show "x \<le> y \<Longrightarrow> y \<le> z \<Longrightarrow> x \<le> z"
    by (cases x; cases y; cases z) auto
  show "x \<le> y \<Longrightarrow> y \<le> x \<Longrightarrow> x = y"
    by (cases x; cases y) auto
  show "x \<le> y \<or> y \<le> x"
    by (cases x; cases y) auto
qed

end

definition deltaE76 :: "string \<Rightarrow> string \<Rightarrow> distance" where
  "deltaE76 hex1 hex2 =
     (case (hexToRgb hex1, hexToRgb hex2) of
        (Some rgb1, Some rgb2) \<Rightarrow>
          (let lab1 = rgbToLab (rgb_r rgb1) (rgb_g rgb1) (rgb_b rgb1);
               lab2 = rgbToLab (rgb_r rgb2) (rgb_g rgb2) (rgb_b rgb2)
           in Finite (sqrt ((lab_L lab1 - lab_L lab2)\<^sup>2 + (lab_a lab1 - lab_a lab2)\<^sup>2
                            + (lab_b lab1 - lab_b lab2)\<^sup>2)))
      | _ \<Rightarrow> Infinity)"

subsection \<open>\<open>getHSL\<close> and \<open>classifyEyeColor\<close>\<close>

definition getHSL :: "real \<Rightarrow> real \<Rightarrow> real \<Rightarrow> hsl" where
  "getHSL r g b =
     (let rn = r / 255; gn = g / 255; bn = b / 255;
          mx = max (max rn gn) bn; mn = min (min rn gn) bn;
          l = (mx + mn) / 2
      in if mx \<noteq> mn
         then (let d = mx - mn;
                   s = (if l > 0.5 then d / (2 - mx - mn) else d / (mx + mn));
                   h = (if mx = rn then ((gn - bn) / d + (if gn < bn then 6 else 0)) / 6
                        else if mx = gn then (bn - rn) / d + 2 / 6
                        else (rn - gn) / d + 4 / 6)
               in \<lparr>hsl_h = h * 360, hsl_s = s, hsl_l = l\<rparr>)
         else \<lparr>hsl_h = 0, hsl_s = 0, hsl_l = l\<rparr>)"

text \<open>
  The conventional six-sector hue, for comparison: the sector offset (0, 2 or 4) is added
  to the normalised difference and the sum is divided by six.
\<close>

definition conventional_hue :: "real \<Rightarrow> real \<Rightarrow> real \<Rightarrow> real" where
  "conventional_hue r g b =
     (let rn = r / 255; gn = g / 255; bn = b / 255;
          mx = max (max rn gn) bn; mn = min (min rn gn) bn; d = mx - mn
      in if mx = mn then 0
         else if mx = rn then ((gn - bn) / d + (if gn < bn then 6 else 0)) / 6 * 360
         else if mx = gn then ((bn - rn) / d + 2) / 6 * 360
         else ((rn - gn) / d + 4) / 6 * 360)"

definition classifyHSL :: "hsl \<Rightarrow> category" where
  "classifyHSL c =
     (let hue = hsl_h c; saturation = hsl_s c
      in if saturation < 0.1 then EYE_COLOR_CATEGORIES gray
         else if hue \<ge> 260 \<and> hue \<le> 300 then EYE_COLOR_CATEGORIES violet
         else if hue \<ge> 200 \<and> hue < 260 then EYE_COLOR_CATEGORIES blue
         else if hue \<ge> 170 \<and> hue < 200
              then (if saturation > 0.15 then EYE_COLOR_CATEGORIES green
                    else EYE_COLOR_CATEGORIES blue)
         else if hue \<ge> 80 \<and> hue < 170 then EYE_COLOR_CATEGORIES green
         else if hue \<ge> 50 \<and> hue < 80 then EYE_COLOR_CATEGORIES hazel
         else if hue \<ge> 35 \<and> hue < 50 then EYE_COLOR_CATEGORIES amber
         else if hue \<ge> 20 \<and> hue < 35 then EYE_COLOR_CATEGORIES brown
         else if hue \<ge> 0 \<and> hue < 20 then EYE_COLOR_CATEGORIES brown
         else if hue \<ge> 340 \<and> hue \<le> 360 then EYE_COLOR_CATEGORIES brown
         else if hue \<ge> 210 \<and> hue \<le> 270 \<and> saturation < 0.25 then EYE_COLOR_CATEGORIES blue
         else EYE_COLOR_CATEGORIES gray)"

definition classifyEyeColor :: "string \<Rightarrow> category" where
  "classifyEyeColor hex =
     (case hexToRgb hex of
        None \<Rightarrow> EYE_COLOR_CATEGORIES gray
      | Some c \<Rightarrow> classifyHSL (getHSL (rgb_r c) (rgb_g c) (rgb_b c)))"

subsection \<open>\<open>findPantoneMatches\<close> and \<open>findBestPantoneName\<close>\<close>

record pantone =
  p_name :: string
  p_hex :: string

text \<open>An entry of \<open>withDistance\<close>, and of the returned list (whose distance is rounded).\<close>

record pantone_match =
  m_name :: string
  m_hex :: string
  m_distance :: distance

definition withDistance :: "pantone list \<Rightarrow> string \<Rightarrow> pantone_match list" where
  "withDistance pantoneData hex =
     map (\<lambda>p. \<lparr>m_name = p_name p, m_hex = p_hex p, m_distance = deltaE76 hex (p_hex p)\<rparr>)
       pantoneData"

text \<open>
  \<open>Array.prototype.sort\<close> is stable, and the comparator \<open>a.distance - b.distance\<close> orders
  by distance (\<open>Infinity - Infinity\<close> is \<open>NaN\<close>, which the sort reads as a tie): the result
  is the stable sort by the key \<open>distance\<close>.
\<close>

definition sortedByDistance :: "pantone list \<Rightarrow> string \<Rightarrow> pantone_match list" where
  "sortedByDistance pantoneData hex = sort_key m_distance (withDistance pantoneData hex)"

definition roundDistance :: "distance \<Rightarrow> distance" where
  "roundDistance d = (case d of Finite x \<Rightarrow> Finite (real_of_int (Math_round x)) | Infinity \<Rightarrow> Infinity)"

definition replaceDashes :: "string \<Rightarrow> string" where
  "replaceDashes s = map (\<lambda>c. if c = CHR ''-'' then CHR '' '' else c) s"

definition toMatch :: "pantone_match \<Rightarrow> pantone_match" where
  "toMatch e = \<lparr>m_name = replaceDashes (m_name e), m_hex = m_hex e,
                m_distance = roundDistance (m_distance e)\<rparr>"

definition findPantoneMatches :: "pantone list \<Rightarrow> string \<Rightarrow> nat \<Rightarrow> pantone_match list" where
  "findPantoneMatches pantoneData hex cnt =
     map toMatch (take cnt (sortedByDistance pantoneData hex))"

definition findBestPantoneName :: "pantone list \<Rightarrow> string \<Rightarrow> string option" where
  "findBestPantoneName pantoneData hex =
     (case findPantoneMatches pantoneData hex 1 of [] \<Rightarrow> None | m # _ \<Rightarrow> Some (m_name m))"

subsection \<open>\<open>findPupilCenter\<close>\<close>

text \<open>
  The pixel buffer holds four bytes per pixel (R, G, B, A), row after row. Every read of
  the source is behind a bounds check, which the model keeps.
\<close>

type_synonym pixels = "8 word list"

definition byteAt :: "pixels \<Rightarrow> nat \<Rightarrow> real" where
  "byteAt pixels i = real (unat (pixels ! i))"

text \<open>The loop \<open>for (let v = lo; v <= hi; v += 2)\<close> over a real-valued counter.\<close>

function for_step2 :: "real \<Rightarrow> real \<Rightarrow> (real \<Rightarrow> 'a \<Rightarrow> 'a) \<Rightarrow> 'a \<Rightarrow> 'a" where
  "for_step2 v hi body st = (if v \<le> hi then for_step2 (v + 2) hi body (body v st) else st)"
  by pat_completeness auto
termination
  by (relation "measure (\<lambda>(v, hi, body, st). nat (\<lfloor>hi - v\<rfloor> + 1))") (auto, linarith)

declare for_step2.simps [simp del]

record pupil =
  bestX :: real
  bestY :: real
  bestLum :: real

definition pupilVisit :: "pixels \<Rightarrow> nat \<Rightarrow> nat \<Rightarrow> real \<Rightarrow> real \<Rightarrow> pupil \<Rightarrow> pupil" where
  "pupilVisit pixels width height dx dy st =
     (let x = Math_round (real width / 2 + dx); y = Math_round (real height / 2 + dy)
      in if x < 0 \<or> x \<ge> int width \<or> y < 0 \<or> y \<ge> int height then st
         else (let i = (nat y * width + nat x) * 4
               in if i + 2 \<ge> length pixels then st
                  else (let luminance =
                              hsl_l (getHSL (byteAt pixels i) (byteAt pixels (i + 1))
                                       (byteAt pixels (i + 2)))
                        in if luminance < bestLum st
                           then \<lparr>bestX = real_of_int x, bestY = real_of_int y,
                                 bestLum = luminance\<rparr>
                           else st)))"

definition findPupilCenter :: "pixels \<Rightarrow> nat \<Rightarrow> nat \<Rightarrow> real \<times> real" where
  "findPupilCenter pixels width height =
     (let searchRadius = real (min width height) * 0.35;
          st = for_step2 (- searchRadius) searchRadius
                 (\<lambda>dy. for_step2 (- searchRadius) searchRadius
                          (\<lambda>dx. pupilVisit pixels width height dx dy))
                 \<lparr>bestX = real width / 2, bestY = real height / 2, bestLum = 1\<rparr>
      in (bestX st, bestY st))"

subsection \<open>\<open>getDominantColors\<close>\<close>

text \<open>
  The first pass visits every pixel and keeps the ones in the annulus around the pupil
  centre that pass the filters; \<open>annulusPixel\<close> is the body of its inner loop (the empty
  list for \<open>continue\<close>, a singleton for \<open>samples.push\<close>). The alpha byte is read after the
  bounds check \<open>i + 3 >= pixels.length\<close>, so it is never \<open>undefined\<close> and the default 255 of
  the source is not taken.
\<close>

definition annulusPixel ::
    "pixels \<Rightarrow> nat \<Rightarrow> real \<Rightarrow> real \<Rightarrow> real \<Rightarrow> real \<Rightarrow> nat \<Rightarrow> nat \<Rightarrow> rgb list" where
  "annulusPixel pixels width cx cy innerRadius outerRadius x y =
     (let dx = real x - cx; dy = real y - cy; r = sqrt (dx * dx + dy * dy)
      in if r < innerRadius \<or> r > outerRadius then []
         else (let i = (y * width + x) * 4
               in if i + 3 \<ge> length pixels then []
                  else (let rv = byteAt pixels i; g = byteAt pixels (i + 1);
                            b = byteAt pixels (i + 2); a = byteAt pixels (i + 3)
                        in if a < 200 then []
                           else (let c = getHSL rv g b
                                 in if hsl_l c > 0.88 \<or> hsl_l c < 0.08 then []
                                    else if hsl_s c < 0.04 then []
                                    else [\<lparr>rgb_r = rv, rgb_g = g, rgb_b = b\<rparr>]))))"

definition annulusSamples :: "pixels \<Rightarrow> nat \<Rightarrow> nat \<Rightarrow> rgb list" where
  "annulusSamples pixels width height =
     (let c = findPupilCenter pixels width height;
          maxRadius = real (min width height) * 0.45;
          innerRadius = maxRadius * 0.22;
          outerRadius = maxRadius * 0.85
      in concat (map (\<lambda>y. concat (map (\<lambda>x. annulusPixel pixels width (fst c) (snd c)
                                               innerRadius outerRadius x y) [0..<width]))
                   [0..<height]))"

text \<open>
  The fallback pass: the loops \<open>for (let v = lo; v < hi; v += 2)\<close> over the central
  rectangle; \<open>stride2 lo hi\<close> lists the values the counter takes.
\<close>

function stride2 :: "nat \<Rightarrow> nat \<Rightarrow> nat list" where
  "stride2 lo hi = (if lo < hi then lo # stride2 (lo + 2) hi else [])"
  by pat_completeness auto
termination
  by (relation "measure (\<lambda>(lo, hi). hi - lo)") auto

declare stride2.simps [simp del]

definition fallbackPixel :: "pixels \<Rightarrow> nat \<Rightarrow> nat \<Rightarrow> nat \<Rightarrow> rgb list" where
  "fallbackPixel pixels width x y =
     (let i = (y * width + x) * 4
      in if i + 3 \<ge> length pixels then []
         else (let r = byteAt pixels i; g = byteAt pixels (i + 1);
                   b = byteAt pixels (i + 2); a = byteAt pixels (i + 3)
               in if a < 200 then []
                  else (let c = getHSL r g b
                        in if hsl_l c > 0.92 \<or> hsl_l c < 0.06 \<or> hsl_s c < 0.05 then []
                           else [\<lparr>rgb_r = r, rgb_g = g, rgb_b = b\<rparr>])))"

definition fallbackSamples :: "pixels \<Rightarrow> nat \<Rightarrow> nat \<Rightarrow> rgb list" where
  "fallbackSamples pixels width height =
     (let xMin = nat \<lfloor>real width * 0.25\<rfloor>; xMax = nat \<lfloor>real width * 0.75\<rfloor>;
          yMin = nat \<lfloor>real height * 0.25\<rfloor>; yMax = nat \<lfloor>real height * 0.75\<rfloor>
      in concat (map (\<lambda>y. concat (map (\<lambda>x. fallbackPixel pixels width x y) (stride2 xMin xMax)))
                   (stride2 yMin yMax)))"

text \<open>The array \<open>samples\<close> as it stands when the clustering starts.\<close>

definition collectSamples :: "pixels \<Rightarrow> nat \<Rightarrow> nat \<Rightarrow> rgb list" where
  "collectSamples pixels width height =
     (let samples = annulusSamples pixels width height
      in if length samples < 20 then samples @ fallbackSamples pixels width height
         else samples)"

record bucket =
  rSum :: real
  gSum :: real
  bSum :: real
  bk_count :: nat

record mean_color =
  mc_r :: int
  mc_g :: int
  mc_b :: int
  mc_count :: nat

record dominant_color =
  dc_hex :: string
  dc_percentage :: int

text \<open>
  The bucket key is the string \<open>Lb_ab_bb\<close> of three integers, which determines the three
  integers; the model keeps the triple. The \<open>Map\<close> is an association list in insertion
  order: an update of a present key keeps its place, a new key goes to the end.
\<close>

type_synonym bucket_key = "int \<times> int \<times> int"

definition bucketKey :: "rgb \<Rightarrow> bucket_key" where
  "bucketKey c =
     (let lab = rgbToLab (rgb_r c) (rgb_g c) (rgb_b c)
      in (\<lfloor>lab_L lab / 4\<rfloor>, \<lfloor>(lab_a lab + 128) / 16\<rfloor>, \<lfloor>(lab_b lab + 128) / 16\<rfloor>))"

definition addSample :: "(bucket_key \<times> bucket) list \<Rightarrow> rgb \<Rightarrow> (bucket_key \<times> bucket) list" where
  "addSample buckets c =
     (let key = bucketKey c;
          bucket = (case map_of buckets key of
                      None \<Rightarrow> \<lparr>rSum = 0, gSum = 0, bSum = 0, bk_count = 0\<rparr>
                    | Some v \<Rightarrow> v)
      in AList.update key
           \<lparr>rSum = rSum bucket + rgb_r c, gSum = gSum bucket + rgb_g c,
            bSum = bSum bucket + rgb_b c, bk_count = bk_count bucket + 1\<rparr> buckets)"

definition bucketMean :: "bucket \<Rightarrow> mean_color" where
  "bucketMean v =
     \<lparr>mc_r = Math_round (rSum v / real (bk_count v)), mc_g = Math_round (gSum v / real (bk_count v)),
      mc_b = Math_round (bSum v / real (bk_count v)), mc_count = bk_count v\<rparr>"

text \<open>
  The comparator \<open>b.count - a.count\<close> of the stable sort puts the larger count first: the
  stable sort by the key \<open>- count\<close>.
\<close>

definition sortedBuckets :: "rgb list \<Rightarrow> nat \<Rightarrow> mean_color list" where
  "sortedBuckets samples numColors =
     take numColors
       (sort_key (\<lambda>s. - int (mc_count s)) (map (\<lambda>e. bucketMean (snd e)) (foldl addSample [] samples)))"

definition clusterSamples :: "rgb list \<Rightarrow> nat \<Rightarrow> dominant_color list" where
  "clusterSamples samples numColors =
     (let sorted = sortedBuckets samples numColors;
          total = foldl (\<lambda>sum s. sum + mc_count s) 0 sorted
      in map (\<lambda>s. \<lparr>dc_hex = rgbToHex (real_of_int (mc_r s)) (real_of_int (mc_g s))
                               (real_of_int (mc_b s)),
                    dc_percentage = Math_round (real (mc_count s) / real total * 100)\<rparr>) sorted)"

definition getDominantColors :: "pixels \<Rightarrow> nat \<Rightarrow> nat \<Rightarrow> nat \<Rightarrow> dominant_color list" where
  "getDominantColors pixels width height numColors =
     (let samples = collectSamples pixels width height
      in if length samples = 0 then [\<lparr>dc_hex = ''#708090'', dc_percentage = 100\<rparr>]
         else clusterSamples samples numColors)"

subsection \<open>\<open>buildNamedShadeBreakdown\<close> and \<open>pickGeneralColor\<close>\<close>

record named_shade =
  sh_name :: string
  sh_percentage :: int
  sh_hex :: string

text \<open>\<open>name || c.hex\<close>: \<open>null\<close> and the empty string are both falsy.\<close>

definition nameOrHex :: "string option \<Rightarrow> string \<Rightarrow> string" where
  "nameOrHex name hex = (case name of None \<Rightarrow> hex | Some n \<Rightarrow> if n = [] then hex else n)"

definition addShade ::
    "pantone list \<Rightarrow> (string \<times> named_shade) list \<Rightarrow> dominant_color \<Rightarrow> (string \<times> named_shade) list"
  where
  "addShade pantoneData byName c =
     (let name = findBestPantoneName pantoneData (dc_hex c);
          key = nameOrHex name (dc_hex c);
          entry = (case map_of byName key of
                     None \<Rightarrow> \<lparr>sh_name = nameOrHex name (dc_hex c), sh_percentage = 0,
                               sh_hex = dc_hex c\<rparr>
                   | Some e \<Rightarrow> e)
      in AList.update key
           (entry\<lparr>sh_percentage := sh_percentage entry + dc_percentage c, sh_hex := dc_hex c\<rparr>)
           byName)"

definition buildNamedShadeBreakdown :: "pantone list \<Rightarrow> dominant_color list \<Rightarrow> named_shade list" where
  "buildNamedShadeBreakdown pantoneData dominantColors =
     sort_key (\<lambda>e. - sh_percentage e)
       (filter (\<lambda>e. sh_percentage e > 0)
          (map (\<lambda>e. e\<lparr>sh_percentage := Math_round (real_of_int (sh_percentage e))\<rparr>)
             (map snd (foldl (addShade pantoneData) [] dominantColors))))"

definition brownNames :: "string list" where
  "brownNames = [''brown'', ''chocolate'', ''caramel'', ''walnut'', ''mocha'', ''espresso'',
     ''chestnut'', ''sienna'', ''umber'', ''sepia'', ''coffee'', ''hazel'', ''hazelnut'',
     ''toffee'', ''golden brown'', ''amber brown'', ''cocoa'', ''black olive'']"

definition greenNames :: "string list" where
  "greenNames = [''green'', ''sage'', ''olive'', ''forest'', ''sea'', ''moss'', ''fern'',
     ''jade'', ''teal'', ''emerald'', ''celadon'', ''gray green'', ''green haze'', ''pine'']"

text \<open>\<open>String.prototype.toLowerCase\<close> on the letters A to Z; shade names are ASCII.\<close>

definition toLowerChar :: "char \<Rightarrow> char" where
  "toLowerChar c =
     (case map_of (zip ''ABCDEFGHIJKLMNOPQRSTUVWXYZ'' ''abcdefghijklmnopqrstuvwxyz'') c of
        None \<Rightarrow> c
      | Some d \<Rightarrow> d)"

definition toLowerCase :: "string \<Rightarrow> string" where
  "toLowerCase s = map toLowerChar s"

text \<open>\<open>String.prototype.includes\<close>: the second string occurs in the first as a block.\<close>

fun str_includes :: "string \<Rightarrow> string \<Rightarrow> bool" where
  "str_includes [] b = (b = [])"
| "str_includes (c # cs) b = (prefix b (c # cs) \<or> str_includes cs b)"

definition matchesAny :: "string list \<Rightarrow> named_shade \<Rightarrow> bool" where
  "matchesAny names e = list_ex (\<lambda>k. str_includes (toLowerCase (sh_name e)) k) names"

text \<open>The loop over the breakdown, which carries \<open>brownPct\<close> and \<open>greenPct\<close>.\<close>

definition shadeTotals :: "named_shade list \<Rightarrow> int \<times> int" where
  "shadeTotals namedBreakdown =
     foldl (\<lambda>(brownPct, greenPct) e.
              (if matchesAny brownNames e then brownPct + sh_percentage e else brownPct,
               if matchesAny greenNames e then greenPct + sh_percentage e else greenPct))
       (0, 0) namedBreakdown"

text \<open>The loop over the first six dominant colours, which carries \<open>best\<close> and \<open>bestSat\<close>.\<close>

definition moreSaturated :: "dominant_color \<times> real \<Rightarrow> dominant_color \<Rightarrow> dominant_color \<times> real" where
  "moreSaturated st c =
     (case hexToRgb (dc_hex c) of
        None \<Rightarrow> st
      | Some v \<Rightarrow> (let s = hsl_s (getHSL (rgb_r v) (rgb_g v) (rgb_b v))
                   in if s > snd st then (c, s) else st))"

record general_pick =
  gp_hex :: string
  gp_category :: category

definition pickGeneralColor :: "dominant_color list \<Rightarrow> named_shade list \<Rightarrow> general_pick" where
  "pickGeneralColor dominantColors namedBreakdown =
     (case dominantColors of
        [] \<Rightarrow> \<lparr>gp_hex = ''#708090'', gp_category = EYE_COLOR_CATEGORIES gray\<rparr>
      | c0 # _ \<Rightarrow>
          (let totals = shadeTotals namedBreakdown
           in if fst totals \<ge> 15 \<and> snd totals \<ge> 15
              then \<lparr>gp_hex = cat_hex (EYE_COLOR_CATEGORIES hazel),
                    gp_category = EYE_COLOR_CATEGORIES hazel\<rparr>
              else (let best = fst (foldl moreSaturated (c0, 0) (take 6 dominantColors))
                    in \<lparr>gp_hex = dc_hex best, gp_category = classifyEyeColor (dc_hex best)\<rparr>)))"

subsection \<open>\<open>analyzeEyeColor\<close>\<close>

text \<open>
  The part of \<open>analyzeEyeColor\<close> after the image codec has decoded and resized the image
  into the raster \<open>data\<close> of \<open>resizedW\<close> by \<open>resizedH\<close> pixels.
\<close>

record general_color =
  gc_name :: string
  gc_hex :: string
  gc_colorCode :: string

record breakdown_entry =
  be_hex :: string
  be_percentage :: int
  be_shadeName :: "string option"
  be_pantoneMatches :: "pantone_match list"

record report =
  generalColor :: general_color
  breakdown :: "breakdown_entry list"
  shadeBreakdown :: "named_shade list"
  pantoneMatches :: "pantone_match list"
  colorCode :: string

definition analyzeEyeColor :: "pantone list \<Rightarrow> pixels \<Rightarrow> nat \<Rightarrow> nat \<Rightarrow> report" where
  "analyzeEyeColor pantoneData data resizedW resizedH =
     (let dominantColors = getDominantColors data resizedW resizedH 10;
          shades = buildNamedShadeBreakdown pantoneData dominantColors;
          pick = pickGeneralColor dominantColors shades
      in \<lparr>generalColor = \<lparr>gc_name = cat_name (gp_category pick), gc_hex = gp_hex pick,
                           gc_colorCode = gp_hex pick\<rparr>,
          breakdown = map (\<lambda>c. \<lparr>be_hex = dc_hex c, be_percentage = dc_percentage c,
                                  be_shadeName = findBestPantoneName pantoneData (dc_hex c),
                                  be_pantoneMatches = findPantoneMatches pantoneData (dc_hex c) 2\<rparr>)
                        dominantColors,
          shadeBreakdown = shades,
          pantoneMatches = findPantoneMatches pantoneData (cat_hex (gp_category pick)) 5,
          colorCode = gp_hex pick\<rparr>)"

subsection \<open>Inputs used in the examples\<close>

text \<open>A buffer is fully transparent when the alpha byte of each of its pixels is 0.\<close>

definition allTransparent :: "pixels \<Rightarrow> bool" where
  "allTransparent pixels = list_all (\<lambda>j. pixels ! (j * 4 + 3) = 0) [0..<length pixels div 4]"



text \<open>The distance between \<open>#000000\<close> and \<open>#0A0a0A\<close>, about 2.74.\<close>

definition darkDistance :: real where
  "darkDistance =
     sqrt ((225823 / 82365)\<^sup>2 + (194675 / 521903077)\<^sup>2 + (77870 / 105507627)\<^sup>2)"

section \<open>Properties\<close>

subsection \<open>Hexadecimal strings\<close>

lemma nat_less_16_cases: "n < 16 \<Longrightarrow> n \<in> {0,1,2,3,4,5,6,7,8,9,10,11,12,13,14,15::nat}"
  by (simp; arith)

lemma hexDigit_ok: "n < 16 \<Longrightarrow> isHexDigit (hexDigit n) \<and> hexValue (hexDigit n) = n"
proof -
  assume "n < 16"
  then have "n \<in> {0,1,2,3,4,5,6,7,8,9,10,11,12,13,14,15::nat}"
    by (rule nat_less_16_cases)
  then show ?thesis
    by (auto simp: isHexDigit_def hexValue_def hexDigit_def)
qed

lemma Math_round_of_int: "Math_round (real_of_int k) = k"
  unfolding Math_round_def by linarith

lemma channelHex_byte:
  assumes "0 \<le> k" "k \<le> 255"
  shows "channelHex (real_of_int k) = [hexDigit (nat k div 16), hexDigit (nat k mod 16)]"
proof -
  have clamp: "max 0 (min 255 (real_of_int k)) = real_of_int k"
    using assms by simp
  have n: "nat k < 256"
    using assms by simp
  show ?thesis
  proof (cases "nat k < 16")
    case True
    then show ?thesis
      unfolding channelHex_def clamp Math_round_of_int by (simp add: hexDigit_def)
  next
    case False
    with n have "nat k div 16 < 16" by simp
    with False show ?thesis
      unfolding channelHex_def clamp Math_round_of_int by simp
  qed
qed

lemma parseInt16_pair:
  "a < 16 \<Longrightarrow> b < 16 \<Longrightarrow> parseInt16 [hexDigit a, hexDigit b] = 16 * a + b"
  by (simp add: parseInt16_def hexDigit_ok)

lemma parse_channel:
  assumes "0 \<le> k" "k \<le> 255"
  shows "real (parseInt16 [hexDigit (nat k div 16), hexDigit (nat k mod 16)]) = real_of_int k"
proof -
  have "nat k div 16 < 16"
    using assms by simp
  moreover have "nat k mod 16 < 16"
    by simp
  ultimately have "parseInt16 [hexDigit (nat k div 16), hexDigit (nat k mod 16)] = nat k"
    by (simp add: parseInt16_pair)
  then show ?thesis
    using assms by simp
qed

lemma hex_eval:
  "hexToRgb ''#666482'' = Some \<lparr>rgb_r = 102, rgb_g = 100, rgb_b = 130\<rparr>"
  "hexToRgb ''#646482'' = Some \<lparr>rgb_r = 100, rgb_g = 100, rgb_b = 130\<rparr>"
  "hexToRgb ''#708090'' = Some \<lparr>rgb_r = 112, rgb_g = 128, rgb_b = 144\<rparr>"
  "hexToRgb ''#0000ff'' = Some \<lparr>rgb_r = 0, rgb_g = 0, rgb_b = 255\<rparr>"
  "hexToRgb ''#000000'' = Some \<lparr>rgb_r = 0, rgb_g = 0, rgb_b = 0\<rparr>"
  "hexToRgb ''#0A0a0A'' = Some \<lparr>rgb_r = 10, rgb_g = 10, rgb_b = 10\<rparr>"
  "hexToRgb ''nothex'' = None"
  "hexToRgb ''#00ffff'' = Some \<lparr>rgb_r = 0, rgb_g = 255, rgb_b = 255\<rparr>"
  by (simp_all add: hexToRgb_def hexBody_def isHexDigit_def parseInt16_def hexValue_def)

text \<open>
  C7. For all integers \<open>r\<close>, \<open>g\<close>, \<open>b\<close> between 0 and 255, parsing the string that
  \<open>rgbToHex\<close> writes succeeds and gives back the three channels.
\<close>

theorem hex_roundtrip:
  fixes r g b :: int
  assumes "0 \<le> r" "r \<le> 255" "0 \<le> g" "g \<le> 255" "0 \<le> b" "b \<le> 255"
  shows "hexToRgb (rgbToHex (real_of_int r) (real_of_int g) (real_of_int b))
           = Some \<lparr>rgb_r = real_of_int r, rgb_g = real_of_int g, rgb_b = real_of_int b\<rparr>"
proof -
  have d: "nat r div 16 < 16" "nat r mod 16 < 16" "nat g div 16 < 16" "nat g mod 16 < 16"
    "nat b div 16 < 16" "nat b mod 16 < 16"
    using assms by simp_all
  have hex: "rgbToHex (real_of_int r) (real_of_int g) (real_of_int b)
      = CHR ''#'' # [hexDigit (nat r div 16), hexDigit (nat r mod 16),
                     hexDigit (nat g div 16), hexDigit (nat g mod 16),
                     hexDigit (nat b div 16), hexDigit (nat b mod 16)]"
    using assms by (simp add: rgbToHex_def channelHex_byte)
  show ?thesis
    unfolding hex hexToRgb_def hexBody_def
    using d assms by (simp add: hexDigit_ok parse_channel)
qed

theorem hex_roundtrip_witness:
  "hexToRgb (rgbToHex 112 128 144) = Some \<lparr>rgb_r = 112, rgb_g = 128, rgb_b = 144\<rparr>
   \<and> rgbToHex 112 128 144 = ''#708090''"
  using hex_roundtrip [of 112 128 144]
  by (simp add: rgbToHex_def channelHex_def Math_round_def hexDigit_def)

subsection \<open>The classifier\<close>

text \<open>
  C10. A string that \<open>hexToRgb\<close> does not parse is classified as Gray: the classifier
  returns a category and raises nothing.
\<close>

theorem classifyEyeColor_invalid_gray:
  "hexToRgb s = None \<Longrightarrow> classifyEyeColor s = EYE_COLOR_CATEGORIES gray"
  by (simp add: classifyEyeColor_def)

theorem classifyEyeColor_invalid_gray_witness:
  "hexToRgb ''12345g'' = None \<and> classifyEyeColor ''12345g'' = EYE_COLOR_CATEGORIES gray"
  using classifyEyeColor_invalid_gray [of "''12345g''"]
  by (simp add: hexToRgb_def hexBody_def isHexDigit_def)

text \<open>
  Where the red channel is the maximum, \<open>getHSL\<close> computes the conventional hue: that
  branch divides the sum of the difference and the offset by six.
\<close>

lemma getHSL_red_max_conventional:
  assumes "g \<le> r" and "b \<le> r"
  shows "hsl_h (getHSL r g b) = conventional_hue r g b"
proof -
  have "max (max (r / 255) (g / 255)) (b / 255) = r / 255"
    using assms by (simp add: max_def)
  then show ?thesis
    by (simp add: getHSL_def conventional_hue_def Let_def)
qed

text \<open>
  C1. \<open>getHSL\<close> on cyan (0, 255, 255): the green channel is the maximum, the branch adds
  \<open>2/6\<close> to the undivided difference, and the hue is 480 degrees, where the conventional
  computation gives 180. The hue is not below 360, no hue band of the classifier holds it,
  and \<open>#00ffff\<close> is classified as Gray.
\<close>

theorem getHSL_hue_outside_range:
  "getHSL 0 255 255 = \<lparr>hsl_h = 480, hsl_s = 1, hsl_l = 1 / 2\<rparr>
   \<and> conventional_hue 0 255 255 = 180
   \<and> \<not> hsl_h (getHSL 0 255 255) < 360
   \<and> classifyEyeColor ''#00ffff'' = EYE_COLOR_CATEGORIES gray"
  by (simp add: getHSL_def conventional_hue_def classifyEyeColor_def classifyHSL_def hex_eval
      Let_def)




subsection \<open>The hazel override\<close>

lemma shadeTotals_fold:
  "foldl (\<lambda>(brownPct, greenPct) e.
              (if matchesAny brownNames e then brownPct + sh_percentage e else brownPct,
               if matchesAny greenNames e then greenPct + sh_percentage e else greenPct))
       (p, q) nb
   = (p + sum_list (map sh_percentage (filter (matchesAny brownNames) nb)),
      q + sum_list (map sh_percentage (filter (matchesAny greenNames) nb)))"
  by (induction nb arbitrary: p q) auto

lemma shadeTotals_sums:
  "shadeTotals nb
   = (sum_list (map sh_percentage (filter (matchesAny brownNames) nb)),
      sum_list (map sh_percentage (filter (matchesAny greenNames) nb)))"
  unfolding shadeTotals_def shadeTotals_fold by simp

lemma toLower_eval:
  "toLowerCase ''Olive Brown'' = ''olive brown''"
  "toLowerCase ''Walnut'' = ''walnut''"
  "toLowerCase ''Sage Green'' = ''sage green''"
  "toLowerCase ''Sky Blue'' = ''sky blue''"
  by (simp_all add: toLowerCase_def toLowerChar_def)

text \<open>
  C4, as stated, fails on the empty list of dominant colours: \<open>pickGeneralColor\<close> returns
  Gray before it reads the breakdown, here one whose only shade, "Olive Brown" at 100
  percent, matches a brown keyword and a green keyword.
\<close>

theorem pickGeneralColor_empty_counterexample:
  "sum_list (map sh_percentage (filter (matchesAny brownNames)
       [\<lparr>sh_name = ''Olive Brown'', sh_percentage = 100, sh_hex = ''#6b5b3e''\<rparr>])) \<ge> 15
   \<and> sum_list (map sh_percentage (filter (matchesAny greenNames)
       [\<lparr>sh_name = ''Olive Brown'', sh_percentage = 100, sh_hex = ''#6b5b3e''\<rparr>])) \<ge> 15
   \<and> pickGeneralColor []
         [\<lparr>sh_name = ''Olive Brown'', sh_percentage = 100, sh_hex = ''#6b5b3e''\<rparr>]
       = \<lparr>gp_hex = ''#708090'', gp_category = EYE_COLOR_CATEGORIES gray\<rparr>
   \<and> EYE_COLOR_CATEGORIES gray \<noteq> EYE_COLOR_CATEGORIES hazel"
  by (simp add: pickGeneralColor_def matchesAny_def brownNames_def greenNames_def toLower_eval)

text \<open>
  C4, amended. For every non-empty list of dominant colours and every breakdown, if the
  percentages of the shades whose lower-cased name contains a brown keyword sum to at least
  15, and those of the shades whose name contains a green keyword too, then
  \<open>pickGeneralColor\<close> returns the Hazel category (with the Hazel hex), whatever the dominant
  colours are.
\<close>

theorem pickGeneralColor_hazel_override:
  assumes "dominantColors \<noteq> []"
    and "sum_list (map sh_percentage (filter (matchesAny brownNames) namedBreakdown)) \<ge> 15"
    and "sum_list (map sh_percentage (filter (matchesAny greenNames) namedBreakdown)) \<ge> 15"
  shows "pickGeneralColor dominantColors namedBreakdown
           = \<lparr>gp_hex = ''#8E7618'', gp_category = EYE_COLOR_CATEGORIES hazel\<rparr>"
  using assms by (cases dominantColors) (simp_all add: pickGeneralColor_def shadeTotals_sums)

theorem pickGeneralColor_hazel_override_witness:
  "pickGeneralColor
     [\<lparr>dc_hex = ''#0000ff'', dc_percentage = 40\<rparr>, \<lparr>dc_hex = ''#708090'', dc_percentage = 60\<rparr>]
     [\<lparr>sh_name = ''Walnut'', sh_percentage = 30, sh_hex = ''#5d432c''\<rparr>,
      \<lparr>sh_name = ''Sage Green'', sh_percentage = 30, sh_hex = ''#8a9a5b''\<rparr>,
      \<lparr>sh_name = ''Sky Blue'', sh_percentage = 40, sh_hex = ''#0000ff''\<rparr>]
     = \<lparr>gp_hex = ''#8E7618'', gp_category = EYE_COLOR_CATEGORIES hazel\<rparr>
   \<and> classifyEyeColor ''#0000ff'' = EYE_COLOR_CATEGORIES blue"
proof -
  have b: "classifyEyeColor ''#0000ff'' = EYE_COLOR_CATEGORIES blue"
    by (simp add: classifyEyeColor_def classifyHSL_def getHSL_def hex_eval Let_def)
  show ?thesis
    using pickGeneralColor_hazel_override
      [of "[\<lparr>dc_hex = ''#0000ff'', dc_percentage = 40\<rparr>,
            \<lparr>dc_hex = ''#708090'', dc_percentage = 60\<rparr>]"
          "[\<lparr>sh_name = ''Walnut'', sh_percentage = 30, sh_hex = ''#5d432c''\<rparr>,
            \<lparr>sh_name = ''Sage Green'', sh_percentage = 30, sh_hex = ''#8a9a5b''\<rparr>,
            \<lparr>sh_name = ''Sky Blue'', sh_percentage = 40, sh_hex = ''#0000ff''\<rparr>]"]
    by (simp add: b matchesAny_def brownNames_def greenNames_def toLower_eval)
qed

subsection \<open>The perceptual distance\<close>

lemma rgbToLab_black: "rgbToLab 0 0 0 = \<lparr>lab_L = 0, lab_a = 0, lab_b = 0\<rparr>"
  by (simp add: rgbToLab_def gammaDecode_def labF_def Let_def)

lemma rgbToLab_dark:
  "rgbToLab 10 10 10
     = \<lparr>lab_L = 225823 / 82365, lab_a = 194675 / 521903077, lab_b = - (77870 / 105507627)\<rparr>"
  by (simp add: rgbToLab_def gammaDecode_def labF_def Let_def)

lemma deltaE76_eval:
  "deltaE76 ''#000000'' ''#000000'' = Finite 0"
  "deltaE76 ''#000000'' ''#0A0a0A'' = Finite darkDistance"
  "deltaE76 ''#000000'' ''nothex'' = Infinity"
  by (simp_all add: deltaE76_def hex_eval rgbToLab_black rgbToLab_dark darkDistance_def)

text \<open>
  C9. For every valid colour \<open>c\<close>, \<open>deltaE76 c c\<close> is 0, and for valid colours \<open>a\<close> and \<open>b\<close>
  the distance from \<open>a\<close> to \<open>b\<close> is the distance from \<open>b\<close> to \<open>a\<close>.
\<close>

theorem deltaE76_identity_symmetry:
  assumes "hexToRgb c \<noteq> None" and "hexToRgb a \<noteq> None" and "hexToRgb b \<noteq> None"
  shows "deltaE76 c c = Finite 0 \<and> deltaE76 a b = deltaE76 b a"
  using assms by (auto simp: deltaE76_def Let_def power2_commute)

theorem deltaE76_identity_symmetry_witness:
  "deltaE76 ''#0A0a0A'' ''#0A0a0A'' = Finite 0
   \<and> deltaE76 ''#0A0a0A'' ''#000000'' = Finite darkDistance"
  using deltaE76_identity_symmetry [of "''#0A0a0A''" "''#0A0a0A''" "''#000000''"]
  by (simp add: hex_eval deltaE76_eval)

subsection \<open>The reference matcher\<close>








subsection \<open>The shade clusterer\<close>

lemma set_update_subset: "set (AList.update k v al) \<subseteq> insert (k, v) (set al)"
  by (induction al) auto

lemma addSample_counts:
  assumes "\<And>e. e \<in> set bs \<Longrightarrow> 1 \<le> bk_count (snd e)"
    and "e \<in> set (addSample bs c)"
  shows "1 \<le> bk_count (snd e)"
proof -
  from assms(2) obtain k v where
    e: "e \<in> insert (k, v) (set bs)" and v: "1 \<le> bk_count v"
    unfolding addSample_def Let_def using set_update_subset by fastforce
  from e show ?thesis
  proof
    assume "e = (k, v)"
    then show ?thesis using v by simp
  next
    assume "e \<in> set bs"
    then show ?thesis by (rule assms(1))
  qed
qed

lemma foldl_addSample_counts:
  assumes "\<And>e. e \<in> set bs \<Longrightarrow> 1 \<le> bk_count (snd e)"
    and "e \<in> set (foldl addSample bs samples)"
  shows "1 \<le> bk_count (snd e)"
  using assms
proof (induction samples arbitrary: bs)
  case Nil
  then show ?case by simp
next
  case (Cons c cs)
  show ?case
  proof (rule Cons.IH [of "addSample bs c"])
    show "1 \<le> bk_count (snd e')" if "e' \<in> set (addSample bs c)" for e'
      using addSample_counts [of bs e' c] Cons.prems(1) that by blast
    show "e \<in> set (foldl addSample (addSample bs c) cs)"
      using Cons.prems(2) by simp
  qed
qed

lemma addSample_nonempty: "addSample bs c \<noteq> []"
  by (simp add: addSample_def Let_def)

lemma foldl_addSample_nonempty:
  "bs \<noteq> [] \<or> samples \<noteq> [] \<Longrightarrow> foldl addSample bs samples \<noteq> []"
  by (induction samples arbitrary: bs) (auto simp: addSample_nonempty)

lemma foldl_count_sum:
  "foldl (\<lambda>sum s. sum + mc_count s) a xs = a + sum_list (map mc_count xs)"
  by (induction xs arbitrary: a) auto

lemma Math_round_close: "\<bar>real_of_int (Math_round x) - x\<bar> \<le> 1 / 2"
  unfolding Math_round_def by linarith

lemma round_sum_bound:
  "\<bar>real_of_int (sum_list (map (\<lambda>s. Math_round (f s)) xs)) - sum_list (map f xs)\<bar>
     \<le> real (length xs) / 2"
proof (induction xs)
  case Nil
  then show ?case by simp
next
  case (Cons x xs)
  have "\<bar>real_of_int (Math_round (f x)) - f x\<bar> \<le> 1 / 2"
    by (rule Math_round_close)
  moreover have "real_of_int (sum_list (map (\<lambda>s. Math_round (f s)) (x # xs)))
        - sum_list (map f (x # xs))
      = (real_of_int (Math_round (f x)) - f x)
        + (real_of_int (sum_list (map (\<lambda>s. Math_round (f s)) xs)) - sum_list (map f xs))"
    by simp
  moreover have "real (length (x # xs)) / 2 = 1 / 2 + real (length xs) / 2"
    by simp
  ultimately show ?case
    using Cons.IH by linarith
qed

lemma share_sum:
  "sum_list (map (\<lambda>s. real (mc_count s) / t * 100) xs)
     = real (sum_list (map mc_count xs)) / t * 100"
  by (induction xs) (simp_all add: add_divide_distrib distrib_right)

lemma sortedBuckets_counts:
  assumes "s \<in> set (sortedBuckets samples numColors)"
  shows "1 \<le> mc_count s"
proof -
  from assms have "s \<in> set (map (\<lambda>e. bucketMean (snd e)) (foldl addSample [] samples))"
    unfolding sortedBuckets_def by (auto dest: in_set_takeD)
  then obtain e where e: "e \<in> set (foldl addSample [] samples)" and s: "s = bucketMean (snd e)"
    by auto
  have "1 \<le> bk_count (snd e)"
    by (rule foldl_addSample_counts [OF _ e]) simp
  then show ?thesis by (simp add: s bucketMean_def)
qed

lemma sortedBuckets_nonempty:
  assumes "samples \<noteq> []" "1 \<le> numColors"
  shows "sortedBuckets samples numColors \<noteq> []"
proof -
  have "foldl addSample [] samples \<noteq> []"
    using assms(1) by (simp add: foldl_addSample_nonempty)
  then have "sort_key (\<lambda>s. - int (mc_count s))
               (map (\<lambda>e. bucketMean (snd e)) (foldl addSample [] samples)) \<noteq> []"
    by (metis length_sort length_map length_0_conv)
  then show ?thesis
    using assms(2) unfolding sortedBuckets_def by (cases numColors) (auto simp: neq_Nil_conv)
qed

lemma sortedBuckets_sorted:
  "sorted (map (\<lambda>s. - int (mc_count s)) (sortedBuckets samples numColors))"
  unfolding sortedBuckets_def
  by (simp add: take_map [symmetric] sorted_wrt_take)

lemma getDominantColors_clusters:
  "collectSamples pixels width height \<noteq> [] \<Longrightarrow>
   getDominantColors pixels width height numColors
     = clusterSamples (collectSamples pixels width height) numColors"
  by (simp add: getDominantColors_def Let_def)

lemma bucketKey_eval:
  "bucketKey \<lparr>rgb_r = 0, rgb_g = 0, rgb_b = 0\<rparr> = (0, 8, 8)"
  "bucketKey \<lparr>rgb_r = 10, rgb_g = 10, rgb_b = 10\<rparr> = (0, 8, 7)"
  by (simp_all add: bucketKey_def rgbToLab_black rgbToLab_dark)

lemma buckets_eval:
  "foldl addSample [] [\<lparr>rgb_r = 10, rgb_g = 10, rgb_b = 10\<rparr>, \<lparr>rgb_r = 0, rgb_g = 0, rgb_b = 0\<rparr>,
        \<lparr>rgb_r = 0, rgb_g = 0, rgb_b = 0\<rparr>]
   = [((0, 8, 7), \<lparr>rSum = 10, gSum = 10, bSum = 10, bk_count = 1\<rparr>),
      ((0, 8, 8), \<lparr>rSum = 0, gSum = 0, bSum = 0, bk_count = 2\<rparr>)]"
  by (simp add: addSample_def bucketKey_eval)

lemma sortedBuckets_eval:
  "sortedBuckets [\<lparr>rgb_r = 10, rgb_g = 10, rgb_b = 10\<rparr>, \<lparr>rgb_r = 0, rgb_g = 0, rgb_b = 0\<rparr>,
        \<lparr>rgb_r = 0, rgb_g = 0, rgb_b = 0\<rparr>] 10
   = [\<lparr>mc_r = 0, mc_g = 0, mc_b = 0, mc_count = 2\<rparr>,
      \<lparr>mc_r = 10, mc_g = 10, mc_b = 10, mc_count = 1\<rparr>]"
  unfolding sortedBuckets_def buckets_eval by (simp add: bucketMean_def Math_round_def)

lemma rgbToHex_eval: "rgbToHex 0 0 0 = ''#000000''" "rgbToHex 10 10 10 = ''#0a0a0a''"
  by (simp_all add: rgbToHex_def channelHex_def Math_round_def hexDigit_def)

lemma cluster_eval:
  "clusterSamples [\<lparr>rgb_r = 10, rgb_g = 10, rgb_b = 10\<rparr>, \<lparr>rgb_r = 0, rgb_g = 0, rgb_b = 0\<rparr>,
        \<lparr>rgb_r = 0, rgb_g = 0, rgb_b = 0\<rparr>] 10
   = [\<lparr>dc_hex = ''#000000'', dc_percentage = 67\<rparr>, \<lparr>dc_hex = ''#0a0a0a'', dc_percentage = 33\<rparr>]"
  unfolding clusterSamples_def sortedBuckets_eval by (simp add: rgbToHex_eval Math_round_def)

text \<open>
  C8. For every non-empty list of samples (and a request for at least one colour), the
  clusterer returns at least one and at most \<open>numColors\<close> dominant colours; each percentage
  is between 0 and 100; the percentages sum to 100 up to the number of colours returned;
  and the percentages are in descending order.
\<close>

theorem clusterSamples_percentages:
  assumes "samples \<noteq> []" and "1 \<le> numColors"
  shows "clusterSamples samples numColors \<noteq> []
    \<and> length (clusterSamples samples numColors) \<le> numColors
    \<and> list_all (\<lambda>c. 0 \<le> dc_percentage c \<and> dc_percentage c \<le> 100)
        (clusterSamples samples numColors)
    \<and> \<bar>sum_list (map dc_percentage (clusterSamples samples numColors)) - 100\<bar>
        \<le> int (length (clusterSamples samples numColors))
    \<and> sorted_wrt (\<ge>) (map dc_percentage (clusterSamples samples numColors))"
proof -
  let ?xs = "sortedBuckets samples numColors"
  let ?t = "sum_list (map mc_count ?xs)"
  let ?p = "\<lambda>s. Math_round (real (mc_count s) / real ?t * 100)"
  have pct: "map dc_percentage (clusterSamples samples numColors) = map ?p ?xs"
    by (simp add: clusterSamples_def Let_def foldl_count_sum comp_def)
  have len: "length (clusterSamples samples numColors) = length ?xs"
    by (simp add: clusterSamples_def Let_def)
  have ne: "?xs \<noteq> []"
    using assms by (rule sortedBuckets_nonempty)
  have pos: "1 \<le> mc_count s" if "s \<in> set ?xs" for s
    using that by (rule sortedBuckets_counts)
  have le_t: "mc_count s \<le> ?t" if "s \<in> set ?xs" for s
    using that by (simp add: member_le_sum_list)
  have t_pos: "0 < ?t"
  proof -
    from ne obtain s where s: "s \<in> set ?xs" by (cases ?xs) auto
    with pos [OF s] le_t [OF s] show ?thesis by simp
  qed
  have range: "0 \<le> ?p s \<and> ?p s \<le> 100" if "s \<in> set ?xs" for s
  proof -
    have "real (mc_count s) / real ?t \<le> 1"
      using le_t [OF that] t_pos by simp
    then have "real (mc_count s) / real ?t * 100 \<le> 1 * 100"
      by (rule mult_right_mono) simp
    then have "real (mc_count s) / real ?t * 100 \<le> 100" by simp
    moreover have "0 \<le> real (mc_count s) / real ?t * 100" by simp
    ultimately show ?thesis unfolding Math_round_def by (simp add: floor_le_iff le_floor_iff)
  qed
  have all: "list_all (\<lambda>c. 0 \<le> dc_percentage c \<and> dc_percentage c \<le> 100)
        (clusterSamples samples numColors)"
    using range by (simp add: clusterSamples_def Let_def foldl_count_sum list_all_iff)
  have total: "sum_list (map (\<lambda>s. real (mc_count s) / real ?t * 100) ?xs) = 100"
  proof -
    define T where "T = real ?t"
    have "0 < T"
      unfolding T_def using t_pos by (rule of_nat_0_less_iff [THEN iffD2])
    then have "T / T * 100 = 100"
      by simp
    then show ?thesis
      unfolding share_sum T_def .
  qed
  have "\<bar>real_of_int (sum_list (map ?p ?xs)) - 100\<bar> \<le> real (length ?xs) / 2"
    using round_sum_bound [of "\<lambda>s. real (mc_count s) / real ?t * 100" ?xs] total by simp
  then have "\<bar>real_of_int (sum_list (map ?p ?xs)) - 100\<bar> \<le> real (length ?xs)"
    by linarith
  then have sum: "\<bar>sum_list (map ?p ?xs) - 100\<bar> \<le> int (length ?xs)"
    by linarith
  have mono: "?p y \<le> ?p x" if "- int (mc_count x) \<le> - int (mc_count y)" for x y
  proof -
    from that have "real (mc_count y) \<le> real (mc_count x)" by simp
    then have "real (mc_count y) / real ?t * 100 \<le> real (mc_count x) / real ?t * 100"
      using t_pos by (simp add: divide_right_mono)
    then show ?thesis unfolding Math_round_def by (simp add: floor_mono)
  qed
  have "sorted_wrt (\<lambda>x y. - int (mc_count x) \<le> - int (mc_count y)) ?xs"
    using sortedBuckets_sorted [of samples numColors] by (simp add: sorted_wrt_map)
  then have "sorted_wrt (\<lambda>x y. ?p x \<ge> ?p y) ?xs"
    by (rule sorted_wrt_mono_rel [rotated]) (use mono in blast)
  then have desc: "sorted_wrt (\<ge>) (map ?p ?xs)"
    by (simp add: sorted_wrt_map)
  have "length ?xs \<le> numColors"
    by (simp add: sortedBuckets_def)
  then show ?thesis
    using ne all sum desc unfolding pct len by (simp add: clusterSamples_def Let_def)
qed

theorem clusterSamples_percentages_witness:
  "clusterSamples [\<lparr>rgb_r = 10, rgb_g = 10, rgb_b = 10\<rparr>, \<lparr>rgb_r = 0, rgb_g = 0, rgb_b = 0\<rparr>,
        \<lparr>rgb_r = 0, rgb_g = 0, rgb_b = 0\<rparr>] 10
     = [\<lparr>dc_hex = ''#000000'', dc_percentage = 67\<rparr>, \<lparr>dc_hex = ''#0a0a0a'', dc_percentage = 33\<rparr>]
   \<and> \<bar>sum_list (map dc_percentage
          (clusterSamples [\<lparr>rgb_r = 10, rgb_g = 10, rgb_b = 10\<rparr>,
             \<lparr>rgb_r = 0, rgb_g = 0, rgb_b = 0\<rparr>, \<lparr>rgb_r = 0, rgb_g = 0, rgb_b = 0\<rparr>] 10)) - 100\<bar>
       \<le> 2"
  using clusterSamples_percentages
    [of "[\<lparr>rgb_r = 10, rgb_g = 10, rgb_b = 10\<rparr>, \<lparr>rgb_r = 0, rgb_g = 0, rgb_b = 0\<rparr>,
          \<lparr>rgb_r = 0, rgb_g = 0, rgb_b = 0\<rparr>]" 10]
  by (simp add: cluster_eval)

subsection \<open>The region sampler\<close>




















subsection \<open>The fully transparent image\<close>

lemma transparent_alpha:
  assumes "allTransparent pixels" and "j * 4 + 3 < length pixels"
  shows "byteAt pixels (j * 4 + 3) = 0"
proof -
  from assms(2) have "j < length pixels div 4" by arith
  with assms(1) have "pixels ! (j * 4 + 3) = 0"
    by (simp add: allTransparent_def list_all_iff)
  then show ?thesis by (simp add: byteAt_def)
qed

lemma annulusPixel_transparent:
  assumes "allTransparent pixels"
  shows "annulusPixel pixels width cx cy innerRadius outerRadius x y = []"
proof -
  define i where "i = (y * width + x) * 4"
  have "byteAt pixels (i + 3) = 0" if "i + 3 < length pixels"
    using transparent_alpha [OF assms, of "y * width + x"] that by (simp add: i_def)
  then show ?thesis
    unfolding annulusPixel_def Let_def i_def [symmetric] by simp
qed

lemma fallbackPixel_transparent:
  assumes "allTransparent pixels"
  shows "fallbackPixel pixels width x y = []"
proof -
  define i where "i = (y * width + x) * 4"
  have "byteAt pixels (i + 3) = 0" if "i + 3 < length pixels"
    using transparent_alpha [OF assms, of "y * width + x"] that by (simp add: i_def)
  then show ?thesis
    unfolding fallbackPixel_def Let_def i_def [symmetric] by simp
qed

lemma collectSamples_transparent:
  "allTransparent pixels \<Longrightarrow> collectSamples pixels width height = []"
  by (simp add: collectSamples_def annulusSamples_def fallbackSamples_def Let_def
      annulusPixel_transparent fallbackPixel_transparent)

lemma getHSL_slate:
  "getHSL 112 128 144 = \<lparr>hsl_h = 60, hsl_s = 16 / 127, hsl_l = 128 / 255\<rparr>"
  by (simp add: getHSL_def Let_def)

lemma conventional_hue_slate: "conventional_hue 112 128 144 = 210"
  by (simp add: conventional_hue_def Let_def)

lemma classify_slate: "classifyEyeColor ''#708090'' = EYE_COLOR_CATEGORIES hazel"
  by (simp add: classifyEyeColor_def hex_eval getHSL_slate classifyHSL_def)

lemma pick_slate:
  "gp_category (pickGeneralColor [\<lparr>dc_hex = ''#708090'', dc_percentage = 100\<rparr>] nb)
     = EYE_COLOR_CATEGORIES hazel"
  by (simp add: pickGeneralColor_def Let_def moreSaturated_def hex_eval getHSL_slate classify_slate)

lemma classify_slate_conventional:
  "classifyHSL \<lparr>hsl_h = conventional_hue 112 128 144, hsl_s = 16 / 127, hsl_l = 128 / 255\<rparr>
     = EYE_COLOR_CATEGORIES blue"
  by (simp add: conventional_hue_slate classifyHSL_def)

text \<open>
  C2. For every fully transparent buffer, of any width and height, \<open>getDominantColors\<close>
  returns the single colour \<open>#708090\<close> at 100 percent, as the claim says. The general
  colour of the report, however, is named Hazel and not Gray, whatever the reference table:
  \<open>pickGeneralColor\<close> classifies \<open>#708090\<close>, whose saturation 16/127 is above the gray
  threshold 0.1 and whose hue \<open>getHSL\<close> computes as 60.
\<close>

theorem transparent_image_classified_hazel:
  assumes "allTransparent pixels"
  shows "getDominantColors pixels width height numColors
           = [\<lparr>dc_hex = ''#708090'', dc_percentage = 100\<rparr>]
    \<and> gc_name (generalColor (analyzeEyeColor pantoneData pixels width height)) = ''Hazel''
    \<and> ''Hazel'' \<noteq> cat_name (EYE_COLOR_CATEGORIES gray)"
proof -
  have dc: "getDominantColors pixels width height n = [\<lparr>dc_hex = ''#708090'', dc_percentage = 100\<rparr>]"
    for n
    using assms by (simp add: getDominantColors_def collectSamples_transparent)
  show ?thesis
    by (simp add: dc analyzeEyeColor_def Let_def pick_slate)
qed

theorem transparent_image_classified_hazel_witness:
  "allTransparent (replicate 16 0)
   \<and> getDominantColors (replicate 16 0) 2 2 10 = [\<lparr>dc_hex = ''#708090'', dc_percentage = 100\<rparr>]
   \<and> generalColor (analyzeEyeColor [] (replicate 16 0) 2 2)
       = \<lparr>gc_name = ''Hazel'', gc_hex = ''#708090'', gc_colorCode = ''#708090''\<rparr>"
proof -
  have t: "allTransparent (replicate 16 0)"
    by (simp add: allTransparent_def list_all_iff)
  have dc: "getDominantColors (replicate 16 0) 2 2 10 = [\<lparr>dc_hex = ''#708090'', dc_percentage = 100\<rparr>]"
    using transparent_image_classified_hazel [OF t] by simp
  have nb: "buildNamedShadeBreakdown [] [\<lparr>dc_hex = ''#708090'', dc_percentage = 100\<rparr>]
    = [\<lparr>sh_name = ''#708090'', sh_percentage = 100, sh_hex = ''#708090''\<rparr>]"
    by (simp add: buildNamedShadeBreakdown_def addShade_def findBestPantoneName_def
       findPantoneMatches_def sortedByDistance_def withDistance_def nameOrHex_def Math_round_def)
  have pick: "pickGeneralColor [\<lparr>dc_hex = ''#708090'', dc_percentage = 100\<rparr>]
        [\<lparr>sh_name = ''#708090'', sh_percentage = 100, sh_hex = ''#708090''\<rparr>]
     = \<lparr>gp_hex = ''#708090'', gp_category = EYE_COLOR_CATEGORIES hazel\<rparr>"
    by (simp add: pickGeneralColor_def shadeTotals_def matchesAny_def brownNames_def greenNames_def
       toLowerCase_def toLowerChar_def moreSaturated_def hex_eval getHSL_slate classify_slate)
  show ?thesis
    using t dc by (simp add: analyzeEyeColor_def nb pick)
qed

end
